theory Spec2Isabelle
  imports Complex_Main
begin

section \<open>The product service (go-mux): model.go and the handlers of the App\<close>

text \<open>
  The service stores one entity, the product, in a PostgreSQL table and serves five
  HTTP endpoints over it. The development follows the two source files: the data
  access methods of \<^verbatim>\<open>model.go\<close> and the handlers, the router table and the response
  functions of the application file. What the source calls from outside the
  repository (strconv.Atoi, encoding/json, database/sql with the pq driver, the
  gorilla/mux route table) is modelled next to its caller, as far as the handlers
  depend on it.
\<close>

subsection \<open>strconv.Atoi\<close>

text \<open>
  Go strings are byte sequences, here \<^typ>\<open>string\<close>. The Go type \<^verbatim>\<open>int\<close> is taken at
  64 bits. \<^verbatim>\<open>Atoi\<close> returns a value and an error; the handlers of the product
  routes look at the error, the list handler only at the value.
\<close>

datatype num_error = ErrSyntax | ErrRange

definition maxInt :: int where
  "maxInt = 2 ^ 63 - 1"

definition minInt :: int where
  "minInt = - (2 ^ 63)"

definition maxUint64 :: nat where
  "maxUint64 = 2 ^ 64 - 1"

definition is_digit :: "char \<Rightarrow> bool" where
  "is_digit c = (48 \<le> (of_char c :: nat) \<and> (of_char c :: nat) \<le> 57)"

definition digit_val :: "char \<Rightarrow> nat" where
  "digit_val c = (of_char c :: nat) - 48"

text \<open>
  The loop of \<^verbatim>\<open>ParseUint(s, 10, 64)\<close>: a byte that is no decimal digit is a
  syntax error with value 0; \<^verbatim>\<open>n >= cutoff\<close> (the product would overflow) and a
  wrapped or too large sum are range errors with the maximal value. The sum is
  computed in 64 bits, as the source does.
\<close>

fun ParseUint_loop :: "nat \<Rightarrow> string \<Rightarrow> nat \<times> num_error option" where
  "ParseUint_loop n [] = (n, None)"
| "ParseUint_loop n (c # cs) =
     (if \<not> is_digit c then (0, Some ErrSyntax)
      else if n \<ge> maxUint64 div 10 + 1 then (maxUint64, Some ErrRange)
      else
        (let m = n * 10;
             n1 = (m + digit_val c) mod 2 ^ 64
         in if n1 < m \<or> n1 > maxUint64 then (maxUint64, Some ErrRange)
            else ParseUint_loop n1 cs))"

definition ParseUint :: "string \<Rightarrow> nat \<times> num_error option" where
  "ParseUint s = (if s = [] then (0, Some ErrSyntax) else ParseUint_loop 0 s)"

text \<open>\<^verbatim>\<open>ParseInt(s, 10, 0)\<close>: a sign, then \<^verbatim>\<open>ParseUint\<close>, then the signed range.\<close>

definition ParseInt :: "string \<Rightarrow> int \<times> num_error option" where
  "ParseInt s =
     (if s = [] then (0, Some ErrSyntax)
      else
        (let neg = (hd s = CHR ''-'');
             s1 = (if hd s = CHR ''+'' \<or> hd s = CHR ''-'' then tl s else s);
             (un, err) = ParseUint s1
         in if err \<noteq> None \<and> err \<noteq> Some ErrRange then (0, err)
            else if \<not> neg \<and> un \<ge> 2 ^ 63 then (2 ^ 63 - 1, Some ErrRange)
            else if neg \<and> un > 2 ^ 63 then (- (2 ^ 63), Some ErrRange)
            else (if neg then - int un else int un, None)))"

text \<open>The fast path of \<^verbatim>\<open>Atoi\<close>, for strings of 1 to 18 bytes.\<close>

fun Atoi_fast_loop :: "int \<Rightarrow> string \<Rightarrow> int option" where
  "Atoi_fast_loop n [] = Some n"
| "Atoi_fast_loop n (ch # cs) =
     (if \<not> is_digit ch then None
      else Atoi_fast_loop (n * 10 + int (digit_val ch)) cs)"

definition Atoi :: "string \<Rightarrow> int \<times> num_error option" where
  "Atoi s =
     (if 0 < length s \<and> length s < 19 then
        (let s1 = (if hd s = CHR ''-'' \<or> hd s = CHR ''+'' then tl s else s)
         in if length s1 < 1 then (0, Some ErrSyntax)
            else
              (case Atoi_fast_loop 0 s1 of
                 None \<Rightarrow> (0, Some ErrSyntax)
               | Some n \<Rightarrow> (if hd s = CHR ''-'' then - n else n, None)))
      else ParseInt s)"

text \<open>
  The number a string of decimal digits denotes, read from the left with the digits
  read so far in \<open>n\<close>: the reference \<^verbatim>\<open>Atoi\<close> is compared with.
\<close>

fun decimal_from :: "nat \<Rightarrow> string \<Rightarrow> nat" where
  "decimal_from n [] = n"
| "decimal_from n (c # cs) = decimal_from (n * 10 + digit_val c) cs"

definition decimal :: "string \<Rightarrow> nat" where
  "decimal cs = decimal_from 0 cs"

subsection \<open>The product and its JSON form\<close>

text \<open>
  \<^verbatim>\<open>type product struct { ID int; Name string; Price float64 }\<close>. A price is
  taken as the number its decimal notation denotes, a rational: the rounding of
  float64 is left out of the model.
\<close>

record product =
  ID :: int
  Name :: string
  Price :: rat

definition zero_product :: product where
  "zero_product = \<lparr>ID = 0, Name = [], Price = 0\<rparr>"

text \<open>
  A JSON value. A number keeps whether its literal is an integer literal
  (\<open>JInt\<close>) or has a fraction or an exponent (\<open>JFrac\<close>): encoding/json stores
  only the first kind into an \<^verbatim>\<open>int\<close> field.
\<close>

datatype json =
    JNull
  | JBool bool
  | JInt int
  | JFrac rat
  | JString string
  | JArray "json list"
  | JObject "(string \<times> json) list"

datatype json_error = SyntaxError | UnmarshalTypeError

datatype field = F_id | F_name | F_price

text \<open>An upper-case ASCII letter is folded to lower case by setting bit 5 (\<^verbatim>\<open>c | 0x20\<close>).\<close>

definition lower :: "char \<Rightarrow> char" where
  "lower c =
     (if 65 \<le> (of_char c :: nat) \<and> (of_char c :: nat) \<le> 90
      then (case c of Char b0 b1 b2 b3 b4 b5 b6 b7 \<Rightarrow> Char b0 b1 b2 b3 b4 True b6 b7)
      else c)"

text \<open>
  The struct field a key of the object is stored into: the field whose tag is the
  key, or else the one whose tag equals it up to case; a key that names no field is
  skipped.
\<close>

definition field_of_key :: "string \<Rightarrow> field option" where
  "field_of_key k =
     (if k = ''id'' then Some F_id
      else if k = ''name'' then Some F_name
      else if k = ''price'' then Some F_price
      else if map lower k = ''id'' then Some F_id
      else if map lower k = ''name'' then Some F_name
      else if map lower k = ''price'' then Some F_price
      else None)"

text \<open>A number literal at or beyond this magnitude does not parse as a float64.\<close>

definition float64_overflows :: "rat \<Rightarrow> bool" where
  "float64_overflows r = (\<bar>r\<bar> \<ge> 2 ^ 1024 - 2 ^ 970)"

text \<open>
  Storing one value into one field: \<^verbatim>\<open>null\<close> leaves the field as it is, a value
  of the field's kind is stored, anything else is an \<^verbatim>\<open>UnmarshalTypeError\<close> and
  leaves the field as it is.
\<close>

fun store_field :: "field \<Rightarrow> json \<Rightarrow> product \<Rightarrow> product \<times> json_error option" where
  "store_field f JNull p = (p, None)"
| "store_field F_id (JInt n) p =
     (if minInt \<le> n \<and> n \<le> maxInt then (p\<lparr>ID := n\<rparr>, None)
      else (p, Some UnmarshalTypeError))"
| "store_field F_name (JString s) p = (p\<lparr>Name := s\<rparr>, None)"
| "store_field F_price (JInt n) p =
     (if float64_overflows (of_int n) then (p, Some UnmarshalTypeError)
      else (p\<lparr>Price := of_int n\<rparr>, None))"
| "store_field F_price (JFrac r) p =
     (if float64_overflows r then (p, Some UnmarshalTypeError)
      else (p\<lparr>Price := r\<rparr>, None))"
| "store_field f v p = (p, Some UnmarshalTypeError)"

text \<open>
  The members of an object are stored in their order, so that a later duplicate
  wins; the first type error is kept and decoding goes on.
\<close>

fun decode_object ::
  "(string \<times> json) list \<Rightarrow> product \<Rightarrow> json_error option \<Rightarrow> product \<times> json_error option" where
  "decode_object [] p e = (p, e)"
| "decode_object ((k, v) # kvs) p e =
     (case field_of_key k of
        None \<Rightarrow> decode_object kvs p e
      | Some f \<Rightarrow>
          (let (p1, e1) = store_field f v p
           in decode_object kvs p1 (if e = None then e1 else e)))"

definition Unmarshal_product :: "json \<Rightarrow> product \<Rightarrow> product \<times> json_error option" where
  "Unmarshal_product j p =
     (case j of
        JNull \<Rightarrow> (p, None)
      | JObject kvs \<Rightarrow> decode_object kvs p None
      | _ \<Rightarrow> (p, Some UnmarshalTypeError))"

text \<open>
  \<^verbatim>\<open>json.NewDecoder(r.Body).Decode(&p)\<close>. The request body is given as the JSON
  value it starts with, \<open>None\<close> when it starts with none (a syntax error, or an
  empty body).
\<close>

definition Decode :: "json option \<Rightarrow> product \<Rightarrow> product \<times> json_error option" where
  "Decode body p =
     (case body of
        None \<Rightarrow> (p, Some SyntaxError)
      | Some j \<Rightarrow> Unmarshal_product j p)"

text \<open>A Go slice is nil or holds a sequence; \<^verbatim>\<open>append\<close> to nil allocates.\<close>

datatype 'a slice = NilSlice | Slice "'a list"

fun append_slice :: "'a slice \<Rightarrow> 'a \<Rightarrow> 'a slice" where
  "append_slice NilSlice x = Slice [x]"
| "append_slice (Slice xs) x = Slice (xs @ [x])"

text \<open>
  \<^verbatim>\<open>json.Marshal\<close> on the three kinds of payload the handlers send. A float64
  with an integral value below \<open>10\<^sup>2\<^sup>1\<close> is written as an integer literal; a nil
  slice is written \<^verbatim>\<open>null\<close>, an empty one \<^verbatim>\<open>[]\<close>. The maps the handlers send
  have one key each, so the order of keys plays no part.
\<close>

datatype payload =
    PProduct product
  | PProducts "product slice"
  | PMap "(string \<times> string) list"

definition marshal_float :: "rat \<Rightarrow> json" where
  "marshal_float r =
     (if of_int \<lfloor>r\<rfloor> = r \<and> \<bar>r\<bar> < 10 ^ 21 then JInt \<lfloor>r\<rfloor> else JFrac r)"

definition marshal_product :: "product \<Rightarrow> json" where
  "marshal_product p =
     JObject [(''id'', JInt (ID p)), (''name'', JString (Name p)),
              (''price'', marshal_float (Price p))]"

fun Marshal :: "payload \<Rightarrow> json" where
  "Marshal (PProduct p) = marshal_product p"
| "Marshal (PProducts NilSlice) = JNull"
| "Marshal (PProducts (Slice ps)) = JArray (map marshal_product ps)"
| "Marshal (PMap kvs) = JObject (map (\<lambda>(k, v). (k, JString v)) kvs)"

subsection \<open>The database behind database/sql\<close>

text \<open>
  The table, as the test file creates it:
  \<^verbatim>\<open>products(id SERIAL PRIMARY KEY, name TEXT NOT NULL, price NUMERIC(10,2) NOT NULL DEFAULT 0.00)\<close>.
  Its state is the rows in storage order, the last value of the id sequence, and
  the error every statement fails with while the connection is unusable (\<open>None\<close>
  when it is usable). An update keeps a row at its place in the storage order,
  which no statement of the service fixes (there is no \<^verbatim>\<open>ORDER BY\<close>).
\<close>

record db =
  rows :: "product list"
  seq :: int
  fault :: "string option"

datatype db_error = ErrNoRows | DriverError string

definition Error :: "db_error \<Rightarrow> string" where
  "Error e = (case e of ErrNoRows \<Rightarrow> ''sql: no rows in result set'' | DriverError m \<Rightarrow> m)"

text \<open>
  A value assigned to the price column is rounded to two fractional digits, half
  away from zero, and must then be below \<open>10\<^sup>8\<close> in magnitude.
\<close>

definition round2 :: "rat \<Rightarrow> rat" where
  "round2 r =
     (if r < 0 then - (of_int \<lfloor>(- r) * 100 + 1 / 2\<rfloor> / 100)
      else of_int \<lfloor>r * 100 + 1 / 2\<rfloor> / 100)"

definition numeric_10_2 :: "rat \<Rightarrow> db_error + rat" where
  "numeric_10_2 r =
     (if \<bar>round2 r\<bar> \<ge> 10 ^ 8 then Inl (DriverError ''pq: numeric field overflow'')
      else Inr (round2 r))"

text \<open>
  The id column is \<^verbatim>\<open>SERIAL\<close>, a 32-bit integer, while the methods bind the
  64-bit \<^verbatim>\<open>p.ID\<close>. The driver sends a bound id as its decimal text
  (\<^verbatim>\<open>strconv.FormatInt\<close>), and a statement whose id parameter denotes no 32-bit
  integer fails with an error that quotes the text.
\<close>

definition int4 :: "int \<Rightarrow> bool" where
  "int4 i = (- (2 ^ 31) \<le> i \<and> i \<le> 2 ^ 31 - 1)"

definition digit_char :: "nat \<Rightarrow> char" where
  "digit_char n = ''0123456789'' ! (n mod 10)"

fun FormatUint :: "nat \<Rightarrow> string" where
  "FormatUint n =
     (if n < 10 then [digit_char n] else FormatUint (n div 10) @ [digit_char (n mod 10)])"

declare FormatUint.simps [simp del]

definition FormatInt :: "int \<Rightarrow> string" where
  "FormatInt i = (if i < 0 then CHR ''-'' # FormatUint (nat (- i)) else FormatUint (nat i))"

definition id_out_of_range :: "int \<Rightarrow> db_error" where
  "id_out_of_range i =
     DriverError (''pq: value \"'' @ FormatInt i @ ''\" is out of range for type integer'')"

text \<open>\<^verbatim>\<open>SELECT name, price FROM products WHERE id=$1\<close>, read by \<^verbatim>\<open>QueryRow\<close>.\<close>

definition select_product :: "db \<Rightarrow> int \<Rightarrow> db_error + (string \<times> rat)" where
  "select_product d i =
     (case fault d of
        Some m \<Rightarrow> Inl (DriverError m)
      | None \<Rightarrow>
          (if \<not> int4 i then Inl (id_out_of_range i)
           else
             (case find (\<lambda>r. ID r = i) (rows d) of
                None \<Rightarrow> Inl ErrNoRows
              | Some r \<Rightarrow> Inr (Name r, Price r))))"

text \<open>
  \<^verbatim>\<open>UPDATE products SET name=$1, price=$2 WHERE id=$3\<close>, run by \<^verbatim>\<open>Exec\<close>: the
  result is the number of rows affected.
\<close>

definition update_products :: "db \<Rightarrow> string \<Rightarrow> rat \<Rightarrow> int \<Rightarrow> (db_error + nat) \<times> db" where
  "update_products d n pr i =
     (case fault d of
        Some m \<Rightarrow> (Inl (DriverError m), d)
      | None \<Rightarrow>
          (if \<not> int4 i then (Inl (id_out_of_range i), d)
           else
             (case numeric_10_2 pr of
                Inl e \<Rightarrow> (Inl e, d)
              | Inr pr1 \<Rightarrow>
                  (Inr (length (filter (\<lambda>r. ID r = i) (rows d))),
                   d\<lparr>rows := map (\<lambda>r. if ID r = i then r\<lparr>Name := n, Price := pr1\<rparr> else r)
                                  (rows d)\<rparr>))))"

text \<open>\<^verbatim>\<open>DELETE FROM products WHERE id=$1\<close>, run by \<^verbatim>\<open>Exec\<close>.\<close>

definition delete_products :: "db \<Rightarrow> int \<Rightarrow> (db_error + nat) \<times> db" where
  "delete_products d i =
     (case fault d of
        Some m \<Rightarrow> (Inl (DriverError m), d)
      | None \<Rightarrow>
          (if \<not> int4 i then (Inl (id_out_of_range i), d)
           else
             (Inr (length (filter (\<lambda>r. ID r = i) (rows d))),
              d\<lparr>rows := filter (\<lambda>r. ID r \<noteq> i) (rows d)\<rparr>)))"

text \<open>
  \<^verbatim>\<open>INSERT INTO products(name, price) VALUES($1, $2) RETURNING id\<close>: the id is the
  next value of the sequence, which stays consumed when the column cannot hold it or
  the primary key rejects it.
\<close>

definition insert_product :: "db \<Rightarrow> string \<Rightarrow> rat \<Rightarrow> (db_error + int) \<times> db" where
  "insert_product d n pr =
     (case fault d of
        Some m \<Rightarrow> (Inl (DriverError m), d)
      | None \<Rightarrow>
          (case numeric_10_2 pr of
             Inl e \<Rightarrow> (Inl e, d)
           | Inr pr1 \<Rightarrow>
               (let i = seq d + 1; d1 = d\<lparr>seq := i\<rparr>
                in if \<not> int4 i then (Inl (DriverError ''pq: integer out of range''), d1)
                   else if i \<in> set (map ID (rows d))
                   then (Inl (DriverError
                     ''pq: duplicate key value violates unique constraint \"products_pkey\"''), d1)
                   else (Inr i, d1\<lparr>rows := rows d @ [\<lparr>ID = i, Name = n, Price = pr1\<rparr>]\<rparr>))))"

text \<open>\<^verbatim>\<open>SELECT id, name, price FROM products LIMIT $1 OFFSET $2\<close>.\<close>

definition select_products :: "db \<Rightarrow> int \<Rightarrow> int \<Rightarrow> db_error + product list" where
  "select_products d limit offset =
     (case fault d of
        Some m \<Rightarrow> Inl (DriverError m)
      | None \<Rightarrow>
          (if limit < 0 then Inl (DriverError ''pq: LIMIT must not be negative'')
           else if offset < 0 then Inl (DriverError ''pq: OFFSET must not be negative'')
           else Inr (take (nat limit) (drop (nat offset) (rows d)))))"

subsection \<open>model.go\<close>

text \<open>
  The methods take the product they are called on and return it as they leave it;
  a method that writes returns the database as well.
\<close>

definition getProduct :: "db \<Rightarrow> product \<Rightarrow> db_error + product" where
  "getProduct d p =
     (case select_product d (ID p) of
        Inl e \<Rightarrow> Inl e
      | Inr (n, pr) \<Rightarrow> Inr (p\<lparr>Name := n, Price := pr\<rparr>))"

definition updateProduct :: "db \<Rightarrow> product \<Rightarrow> db_error option \<times> db" where
  "updateProduct d p =
     (case update_products d (Name p) (Price p) (ID p) of
        (Inl e, d1) \<Rightarrow> (Some e, d1)
      | (Inr _, d1) \<Rightarrow> (None, d1))"

definition deleteProduct :: "db \<Rightarrow> product \<Rightarrow> db_error option \<times> db" where
  "deleteProduct d p =
     (case delete_products d (ID p) of
        (Inl e, d1) \<Rightarrow> (Some e, d1)
      | (Inr _, d1) \<Rightarrow> (None, d1))"

definition createProduct :: "db \<Rightarrow> product \<Rightarrow> (db_error + product) \<times> db" where
  "createProduct d p =
     (case insert_product d (Name p) (Price p) of
        (Inl e, d1) \<Rightarrow> (Inl e, d1)
      | (Inr i, d1) \<Rightarrow> (Inr (p\<lparr>ID := i\<rparr>), d1))"

text \<open>
  \<^verbatim>\<open>getProducts\<close> starts from the empty, non-nil slice \<^verbatim>\<open>[]product{}\<close> and appends
  one product for each row; on an error it returns the nil slice.
\<close>

definition getProducts :: "db \<Rightarrow> int \<Rightarrow> int \<Rightarrow> product slice \<times> db_error option" where
  "getProducts d start count =
     (case select_products d count start of
        Inl e \<Rightarrow> (NilSlice, Some e)
      | Inr rs \<Rightarrow> (foldl append_slice (Slice []) rs, None))"

subsection \<open>Requests, responses and the response functions\<close>

text \<open>
  A request carries its method and path, the route variables the router extracted
  (\<^verbatim>\<open>mux.Vars\<close>), the parsed form values and the body. A map lookup of an absent
  key gives the empty string, as \<^verbatim>\<open>vars["id"]\<close> and \<^verbatim>\<open>r.FormValue\<close> do.
\<close>

record request =
  Method :: string
  Path :: string
  Vars :: "(string \<times> string) list"
  Form :: "(string \<times> string) list"
  Body :: "json option"

record response =
  code :: nat
  content_type :: string
  body :: json

definition lookup_string :: "(string \<times> string) list \<Rightarrow> string \<Rightarrow> string" where
  "lookup_string kvs k = (case map_of kvs k of None \<Rightarrow> [] | Some v \<Rightarrow> v)"

definition FormValue :: "request \<Rightarrow> string \<Rightarrow> string" where
  "FormValue r k = lookup_string (Form r) k"

definition StatusOK :: nat where "StatusOK = 200"
definition StatusCreated :: nat where "StatusCreated = 201"
definition StatusBadRequest :: nat where "StatusBadRequest = 400"
definition StatusNotFound :: nat where "StatusNotFound = 404"
definition StatusInternalServerError :: nat where "StatusInternalServerError = 500"

definition respondWithJSON :: "nat \<Rightarrow> payload \<Rightarrow> response" where
  "respondWithJSON c pl = \<lparr>code = c, content_type = ''application/json'', body = Marshal pl\<rparr>"

definition respondWithError :: "nat \<Rightarrow> string \<Rightarrow> response" where
  "respondWithError c message = respondWithJSON c (PMap [(''error'', message)])"

subsection \<open>The handlers\<close>

definition App_getProduct :: "db \<Rightarrow> request \<Rightarrow> response \<times> db" where
  "App_getProduct d r =
     (case Atoi (lookup_string (Vars r) ''id'') of
        (_, Some _) \<Rightarrow> (respondWithError StatusBadRequest ''Invalid product ID'', d)
      | (i, None) \<Rightarrow>
          (case getProduct d (zero_product\<lparr>ID := i\<rparr>) of
             Inl ErrNoRows \<Rightarrow> (respondWithError StatusNotFound ''Product not found'', d)
           | Inl e \<Rightarrow> (respondWithError StatusInternalServerError (Error e), d)
           | Inr p \<Rightarrow> (respondWithJSON StatusOK (PProduct p), d)))"

definition App_getProducts :: "db \<Rightarrow> request \<Rightarrow> response \<times> db" where
  "App_getProducts d r =
     (let count0 = fst (Atoi (FormValue r ''count''));
          start0 = fst (Atoi (FormValue r ''start''));
          count = (if count0 > 10 \<or> count0 < 1 then 10 else count0);
          start = (if start0 < 0 then 0 else start0)
      in case getProducts d start count of
           (_, Some e) \<Rightarrow> (respondWithError StatusInternalServerError (Error e), d)
         | (products, None) \<Rightarrow> (respondWithJSON StatusOK (PProducts products), d))"

definition App_createProduct :: "db \<Rightarrow> request \<Rightarrow> response \<times> db" where
  "App_createProduct d r =
     (case Decode (Body r) zero_product of
        (_, Some _) \<Rightarrow> (respondWithError StatusBadRequest ''Invalid request payload'', d)
      | (p, None) \<Rightarrow>
          (case createProduct d p of
             (Inl e, d1) \<Rightarrow> (respondWithError StatusInternalServerError (Error e), d1)
           | (Inr p1, d1) \<Rightarrow> (respondWithJSON StatusCreated (PProduct p1), d1)))"

definition App_updateProduct :: "db \<Rightarrow> request \<Rightarrow> response \<times> db" where
  "App_updateProduct d r =
     (case Atoi (lookup_string (Vars r) ''id'') of
        (_, Some _) \<Rightarrow> (respondWithError StatusBadRequest ''Invalid product ID'', d)
      | (i, None) \<Rightarrow>
          (case Decode (Body r) zero_product of
             (_, Some _) \<Rightarrow> (respondWithError StatusBadRequest ''Invalid resquest payload'', d)
           | (p0, None) \<Rightarrow>
               (let p = p0\<lparr>ID := i\<rparr>
                in case updateProduct d p of
                     (Some e, d1) \<Rightarrow> (respondWithError StatusInternalServerError (Error e), d1)
                   | (None, d1) \<Rightarrow> (respondWithJSON StatusOK (PProduct p), d1))))"

definition App_deleteProduct :: "db \<Rightarrow> request \<Rightarrow> response \<times> db" where
  "App_deleteProduct d r =
     (case Atoi (lookup_string (Vars r) ''id'') of
        (_, Some _) \<Rightarrow> (respondWithError StatusBadRequest ''Invalid Product ID'', d)
      | (i, None) \<Rightarrow>
          (case deleteProduct d (zero_product\<lparr>ID := i\<rparr>) of
             (Some e, d1) \<Rightarrow> (respondWithError StatusInternalServerError (Error e), d1)
           | (None, d1) \<Rightarrow> (respondWithJSON StatusOK (PMap [(''result'', ''success'')]), d1)))"

subsection \<open>The routes\<close>

text \<open>
  A path template is a literal path, or a prefix followed by one variable with the
  pattern \<^verbatim>\<open>[0-9]+\<close>; the router matches a template against the whole path. The
  first route whose template and method both match serves the request. When none
  does, the router answers by itself: not allowed when some template matched under
  another method, not found otherwise.
\<close>

datatype template = Literal string | Numeric string string

datatype handler =
  H_getProducts | H_createProduct | H_getProduct | H_updateProduct | H_deleteProduct

definition match_template :: "template \<Rightarrow> string \<Rightarrow> (string \<times> string) list option" where
  "match_template t path =
     (case t of
        Literal s \<Rightarrow> (if path = s then Some [] else None)
      | Numeric pre v \<Rightarrow>
          (let seg = drop (length pre) path
           in if take (length pre) path = pre \<and> seg \<noteq> [] \<and> list_all is_digit seg
              then Some [(v, seg)] else None))"

definition initializeRoutes :: "(template \<times> string \<times> handler) list" where
  "initializeRoutes =
     [(Literal ''/products'', ''GET'', H_getProducts),
      (Literal ''/product'', ''POST'', H_createProduct),
      (Numeric ''/product/'' ''id'', ''GET'', H_getProduct),
      (Numeric ''/product/'' ''id'', ''PUT'', H_updateProduct),
      (Numeric ''/product/'' ''id'', ''DELETE'', H_deleteProduct)]"

datatype route_match = Matched handler "(string \<times> string) list" | MethodMismatch | NoMatch

fun Match :: "(template \<times> string \<times> handler) list \<Rightarrow> request \<Rightarrow> bool \<Rightarrow> route_match" where
  "Match [] r mismatch = (if mismatch then MethodMismatch else NoMatch)"
| "Match ((t, m, h) # rs) r mismatch =
     (case match_template t (Path r) of
        None \<Rightarrow> Match rs r mismatch
      | Some vs \<Rightarrow> (if Method r = m then Matched h vs else Match rs r True))"

fun run_handler :: "handler \<Rightarrow> db \<Rightarrow> request \<Rightarrow> response \<times> db" where
  "run_handler H_getProducts d r = App_getProducts d r"
| "run_handler H_createProduct d r = App_createProduct d r"
| "run_handler H_getProduct d r = App_getProduct d r"
| "run_handler H_updateProduct d r = App_updateProduct d r"
| "run_handler H_deleteProduct d r = App_deleteProduct d r"

datatype served = Handled response | MethodNotAllowed | NotFound

definition ServeHTTP :: "db \<Rightarrow> request \<Rightarrow> served \<times> db" where
  "ServeHTTP d r =
     (case Match initializeRoutes r False of
        Matched h vs \<Rightarrow> (let (resp, d1) = run_handler h d (r\<lparr>Vars := vs\<rparr>) in (Handled resp, d1))
      | MethodMismatch \<Rightarrow> (MethodNotAllowed, d)
      | NoMatch \<Rightarrow> (NotFound, d))"

section \<open>Properties\<close>

subsection \<open>Auxiliary facts\<close>

lemmas status_defs = StatusOK_def StatusCreated_def StatusBadRequest_def StatusNotFound_def
  StatusInternalServerError_def

lemmas respond_defs = respondWithJSON_def respondWithError_def

lemma floor_rat_numeral [simp]:
  "\<lfloor>numeral a / numeral b :: rat\<rfloor> = numeral a div numeral b"
  using floor_divide_of_int_eq [of "numeral a" "numeral b", where ?'a = rat] by simp

lemma floor_rat_one_numeral [simp]:
  "\<lfloor>1 / numeral b :: rat\<rfloor> = 1 div numeral b"
  using floor_divide_of_int_eq [of 1 "numeral b", where ?'a = rat] by simp

lemma Atoi_1: "Atoi ''1'' = (1, None)"
  by (simp add: Atoi_def is_digit_def digit_val_def)

lemma Atoi_7: "Atoi ''7'' = (7, None)"
  by (simp add: Atoi_def is_digit_def digit_val_def)

subsection \<open>The messages of a body that does not decode\<close>

text \<open>
  Claim C10. When the body of an UpdateProduct request does not decode (the id of
  the path having parsed, which the handler checks first), the response is 400 with
  the error message \<^verbatim>\<open>Invalid resquest payload\<close>, spelled so; CreateProduct answers
  the same condition with 400 and \<^verbatim>\<open>Invalid request payload\<close>, a different string.
  Neither handler touches the database.
\<close>

theorem update_decode_failure_message:
  assumes "snd (Atoi (lookup_string (Vars r) ''id'')) = None"
    and "snd (Decode (Body r) zero_product) \<noteq> None"
  shows "App_updateProduct d r =
           (\<lparr>code = 400, content_type = ''application/json'',
             body = JObject [(''error'', JString ''Invalid resquest payload'')]\<rparr>, d)
         \<and> App_createProduct d r =
           (\<lparr>code = 400, content_type = ''application/json'',
             body = JObject [(''error'', JString ''Invalid request payload'')]\<rparr>, d)
         \<and> ''Invalid resquest payload'' \<noteq> ''Invalid request payload''"
proof -
  obtain i where a: "Atoi (lookup_string (Vars r) ''id'') = (i, None)"
    using assms(1) by (cases "Atoi (lookup_string (Vars r) ''id'')") simp
  obtain p e where b: "Decode (Body r) zero_product = (p, Some e)"
    using assms(2) by (cases "Decode (Body r) zero_product") auto
  show ?thesis
    by (simp add: App_updateProduct_def App_createProduct_def a b respond_defs status_defs)
qed

theorem update_decode_failure_message_witness:
  "App_updateProduct \<lparr>rows = [], seq = 0, fault = None\<rparr>
     \<lparr>Method = ''PUT'', Path = ''/product/1'', Vars = [(''id'', ''1'')], Form = [], Body = None\<rparr> =
     (\<lparr>code = 400, content_type = ''application/json'',
       body = JObject [(''error'', JString ''Invalid resquest payload'')]\<rparr>,
      \<lparr>rows = [], seq = 0, fault = None\<rparr>)"
  using update_decode_failure_message
    [of "\<lparr>Method = ''PUT'', Path = ''/product/1'', Vars = [(''id'', ''1'')], Form = [], Body = None\<rparr>"
        "\<lparr>rows = [], seq = 0, fault = None\<rparr>"]
  by (simp add: lookup_string_def Atoi_1 Decode_def)

lemma find_append_fresh:
  "\<forall>x\<in>set xs. \<not> P x \<Longrightarrow> P y \<Longrightarrow> find P (xs @ [y]) = Some y"
  by (induction xs) auto

lemma insert_product_Inr:
  assumes "insert_product d n pr = (Inr i, d1)"
  shows "fault d = None \<and> i = seq d + 1 \<and> i \<notin> ID ` set (rows d) \<and> int4 i
         \<and> \<bar>round2 pr\<bar> < 10 ^ 8
         \<and> d1 = d\<lparr>seq := i, rows := rows d @ [\<lparr>ID = i, Name = n, Price = round2 pr\<rparr>]\<rparr>"
  using assms
  by (auto simp: insert_product_def numeric_10_2_def Let_def
           split: option.splits if_splits sum.splits)

lemma createProduct_Inr:
  assumes "createProduct d p = (Inr p1, d1)"
  shows "insert_product d (Name p) (Price p) = (Inr (ID p1), d1)
         \<and> Name p1 = Name p \<and> Price p1 = Price p"
  using assms
  by (auto simp: createProduct_def split: prod.splits sum.splits)

subsection \<open>CreateProduct\<close>

text \<open>
  Claim C6. A CreateProduct request whose body does not decode is answered 400
  with the message \<^verbatim>\<open>Invalid request payload\<close> and leaves the database alone; when
  the body decodes and the insert fails, the answer is 500 with the message of the
  error; otherwise it is 201 with the product as submitted and the id the insert
  returned, which is the next value of the sequence, is new in the table, and is the
  id of the row appended.
\<close>

theorem createProduct_responses:
  "(snd (Decode (Body r) zero_product) \<noteq> None \<longrightarrow>
      App_createProduct d r =
        (\<lparr>code = 400, content_type = ''application/json'',
          body = JObject [(''error'', JString ''Invalid request payload'')]\<rparr>, d))
   \<and> (\<forall>p e d1. Decode (Body r) zero_product = (p, None) \<and> createProduct d p = (Inl e, d1) \<longrightarrow>
      App_createProduct d r =
        (\<lparr>code = 500, content_type = ''application/json'',
          body = JObject [(''error'', JString (Error e))]\<rparr>, d1))
   \<and> (\<forall>p p1 d1. Decode (Body r) zero_product = (p, None) \<and> createProduct d p = (Inr p1, d1) \<longrightarrow>
      App_createProduct d r =
        (\<lparr>code = 201, content_type = ''application/json'',
          body = JObject [(''id'', JInt (ID p1)), (''name'', JString (Name p)),
                          (''price'', marshal_float (Price p))]\<rparr>, d1)
      \<and> ID p1 = seq d + 1 \<and> ID p1 \<notin> ID ` set (rows d)
      \<and> rows d1 = rows d @ [\<lparr>ID = ID p1, Name = Name p, Price = round2 (Price p)\<rparr>])"
proof (intro conjI allI impI)
  assume "snd (Decode (Body r) zero_product) \<noteq> None"
  then obtain p e where "Decode (Body r) zero_product = (p, Some e)"
    by (cases "Decode (Body r) zero_product") auto
  then show "App_createProduct d r =
        (\<lparr>code = 400, content_type = ''application/json'',
          body = JObject [(''error'', JString ''Invalid request payload'')]\<rparr>, d)"
    by (simp add: App_createProduct_def respond_defs status_defs)
next
  fix p e d1
  assume "Decode (Body r) zero_product = (p, None) \<and> createProduct d p = (Inl e, d1)"
  then show "App_createProduct d r =
        (\<lparr>code = 500, content_type = ''application/json'',
          body = JObject [(''error'', JString (Error e))]\<rparr>, d1)"
    by (simp add: App_createProduct_def respond_defs status_defs)
next
  fix p p1 d1
  assume a: "Decode (Body r) zero_product = (p, None) \<and> createProduct d p = (Inr p1, d1)"
  then have c: "insert_product d (Name p) (Price p) = (Inr (ID p1), d1)"
    and n: "Name p1 = Name p" and pr: "Price p1 = Price p"
    using createProduct_Inr by blast+
  show "App_createProduct d r =
        (\<lparr>code = 201, content_type = ''application/json'',
          body = JObject [(''id'', JInt (ID p1)), (''name'', JString (Name p)),
                          (''price'', marshal_float (Price p))]\<rparr>, d1)"
    using a n pr by (simp add: App_createProduct_def respond_defs status_defs marshal_product_def)
  show "ID p1 = seq d + 1" using insert_product_Inr [OF c] by blast
  show "ID p1 \<notin> ID ` set (rows d)" using insert_product_Inr [OF c] by blast
  show "rows d1 = rows d @ [\<lparr>ID = ID p1, Name = Name p, Price = round2 (Price p)\<rparr>]"
    using insert_product_Inr [OF c] by auto
qed


theorem createProduct_responses_witness:
  "App_createProduct \<lparr>rows = [], seq = 0, fault = None\<rparr>
     \<lparr>Method = ''POST'', Path = ''/product'', Vars = [], Form = [],
      Body = Some (JObject [(''name'', JString ''test product''), (''price'', JFrac (1122 / 100))])\<rparr> =
   (\<lparr>code = 201, content_type = ''application/json'',
     body = JObject [(''id'', JInt 1), (''name'', JString ''test product''),
                     (''price'', JFrac (1122 / 100))]\<rparr>,
    \<lparr>rows = [\<lparr>ID = 1, Name = ''test product'', Price = 1122 / 100\<rparr>], seq = 1, fault = None\<rparr>)"
proof -
  let ?d = "\<lparr>rows = [], seq = 0, fault = None\<rparr>"
  let ?r = "\<lparr>Method = ''POST'', Path = ''/product'', Vars = [], Form = [],
      Body = Some (JObject [(''name'', JString ''test product''), (''price'', JFrac (1122 / 100))])\<rparr>"
  let ?p = "\<lparr>ID = 0, Name = ''test product'', Price = 1122 / 100\<rparr>"
  let ?d1 = "\<lparr>rows = [\<lparr>ID = 1, Name = ''test product'', Price = 1122 / 100\<rparr>], seq = 1, fault = None\<rparr>"
  have a: "Decode (Body ?r) zero_product = (?p, None)"
    by (simp add: Decode_def Unmarshal_product_def field_of_key_def float64_overflows_def
          zero_product_def)
  have b: "createProduct ?d ?p = (Inr (?p\<lparr>ID := 1\<rparr>), ?d1)"
    by (simp add: createProduct_def insert_product_def numeric_10_2_def round2_def int4_def)
  have c: "marshal_float (1122 / 100) = JFrac (1122 / 100)"
    by (simp add: marshal_float_def)
  show ?thesis
    using createProduct_responses [of ?r ?d] a b c by simp
qed

subsection \<open>UpdateProduct\<close>

text \<open>
  Claim C7. For an UpdateProduct request whose path id parses and whose body
  decodes, the update statement is keyed by the id of the path, whatever id the body
  carried, and when it succeeds the response is 200 with the id of the path and the
  name and price of the body: the product is not read back, so the price answered is
  the price submitted, not the price stored.
\<close>

theorem updateProduct_path_id_overrides:
  assumes "Atoi (lookup_string (Vars r) ''id'') = (i, None)"
    and "Decode (Body r) zero_product = (p0, None)"
    and "updateProduct d (p0\<lparr>ID := i\<rparr>) = (None, d1)"
  shows "App_updateProduct d r =
           (\<lparr>code = 200, content_type = ''application/json'',
             body = JObject [(''id'', JInt i), (''name'', JString (Name p0)),
                             (''price'', marshal_float (Price p0))]\<rparr>, d1)"
  using assms
  by (simp add: App_updateProduct_def Let_def respond_defs status_defs marshal_product_def)

theorem updateProduct_path_id_overrides_witness:
  "App_updateProduct
     \<lparr>rows = [\<lparr>ID = 3, Name = ''a'', Price = 1\<rparr>, \<lparr>ID = 7, Name = ''b'', Price = 2\<rparr>],
      seq = 7, fault = None\<rparr>
     \<lparr>Method = ''PUT'', Path = ''/product/7'', Vars = [(''id'', ''7'')], Form = [],
      Body = Some (JObject [(''id'', JInt 3), (''name'', JString ''c''),
                            (''price'', JFrac (1999 / 1000))])\<rparr> =
   (\<lparr>code = 200, content_type = ''application/json'',
     body = JObject [(''id'', JInt 7), (''name'', JString ''c''), (''price'', JFrac (1999 / 1000))]\<rparr>,
    \<lparr>rows = [\<lparr>ID = 3, Name = ''a'', Price = 1\<rparr>, \<lparr>ID = 7, Name = ''c'', Price = 2\<rparr>],
     seq = 7, fault = None\<rparr>)"
proof -
  let ?d = "\<lparr>rows = [\<lparr>ID = 3, Name = ''a'', Price = 1\<rparr>, \<lparr>ID = 7, Name = ''b'', Price = 2\<rparr>],
      seq = 7, fault = None\<rparr>"
  let ?r = "\<lparr>Method = ''PUT'', Path = ''/product/7'', Vars = [(''id'', ''7'')], Form = [],
      Body = Some (JObject [(''id'', JInt 3), (''name'', JString ''c''),
                            (''price'', JFrac (1999 / 1000))])\<rparr>"
  let ?p0 = "\<lparr>ID = 3, Name = ''c'', Price = 1999 / 1000\<rparr>"
  let ?d1 = "\<lparr>rows = [\<lparr>ID = 3, Name = ''a'', Price = 1\<rparr>, \<lparr>ID = 7, Name = ''c'', Price = 2\<rparr>],
     seq = 7, fault = None\<rparr>"
  have a: "Atoi (lookup_string (Vars ?r) ''id'') = (7, None)"
    by (simp add: lookup_string_def Atoi_7)
  have b: "Decode (Body ?r) zero_product = (?p0, None)"
    by (simp add: Decode_def Unmarshal_product_def field_of_key_def float64_overflows_def
          zero_product_def minInt_def maxInt_def)
  have c: "updateProduct ?d (?p0\<lparr>ID := 7\<rparr>) = (None, ?d1)"
    by (simp add: updateProduct_def update_products_def numeric_10_2_def round2_def int4_def)
  have m: "marshal_float (1999 / 1000) = JFrac (1999 / 1000)"
    by (simp add: marshal_float_def)
  show ?thesis
    using updateProduct_path_id_overrides [OF a b c] m by simp
qed

subsection \<open>GetProduct\<close>

text \<open>
  Claim C3, as amended. For a GetProduct request whose path id parses: when the
  connection is usable, the id is one the id column can hold (a 32-bit integer) and
  no stored product has it, the response is 404 with the error message
  \<^verbatim>\<open>Product not found\<close>; when the fetch fails with any other error, the response is
  500 with the message of that error. That is so when the connection is unusable,
  and when the id is beyond the 32-bit range, stored or not: the statement fails
  and the error quotes the id. The database is left as it was.
\<close>

theorem getProduct_not_found_and_failure:
  assumes "Atoi (lookup_string (Vars r) ''id'') = (i, None)"
  shows "(fault d = None \<and> int4 i \<and> i \<notin> ID ` set (rows d) \<longrightarrow>
            App_getProduct d r =
              (\<lparr>code = 404, content_type = ''application/json'',
                body = JObject [(''error'', JString ''Product not found'')]\<rparr>, d))
         \<and> (\<forall>e. getProduct d \<lparr>ID = i, Name = [], Price = 0\<rparr> = Inl e \<and> e \<noteq> ErrNoRows \<longrightarrow>
            App_getProduct d r =
              (\<lparr>code = 500, content_type = ''application/json'',
                body = JObject [(''error'', JString (Error e))]\<rparr>, d))
         \<and> (\<forall>m. fault d = Some m \<longrightarrow>
            App_getProduct d r =
              (\<lparr>code = 500, content_type = ''application/json'',
                body = JObject [(''error'', JString m)]\<rparr>, d))
         \<and> (fault d = None \<and> \<not> int4 i \<longrightarrow>
            App_getProduct d r =
              (\<lparr>code = 500, content_type = ''application/json'',
                body = JObject [(''error'', JString
                  (''pq: value \"'' @ FormatInt i @ ''\" is out of range for type integer''))]\<rparr>,
               d))"
proof (intro conjI allI impI)
  assume a: "fault d = None \<and> int4 i \<and> i \<notin> ID ` set (rows d)"
  then have "find (\<lambda>r. ID r = i) (rows d) = None"
    by (auto simp: find_None_iff)
  then have "getProduct d \<lparr>ID = i, Name = [], Price = 0\<rparr> = Inl ErrNoRows"
    using a by (simp add: getProduct_def select_product_def)
  then show "App_getProduct d r =
              (\<lparr>code = 404, content_type = ''application/json'',
                body = JObject [(''error'', JString ''Product not found'')]\<rparr>, d)"
    using assms by (simp add: App_getProduct_def zero_product_def respond_defs status_defs)
next
  fix e
  assume "getProduct d \<lparr>ID = i, Name = [], Price = 0\<rparr> = Inl e \<and> e \<noteq> ErrNoRows"
  then show "App_getProduct d r =
              (\<lparr>code = 500, content_type = ''application/json'',
                body = JObject [(''error'', JString (Error e))]\<rparr>, d)"
    using assms
    by (cases e) (simp_all add: App_getProduct_def zero_product_def respond_defs status_defs)
next
  fix m
  assume "fault d = Some m"
  then have "getProduct d \<lparr>ID = i, Name = [], Price = 0\<rparr> = Inl (DriverError m)"
    by (simp add: getProduct_def select_product_def)
  then show "App_getProduct d r =
              (\<lparr>code = 500, content_type = ''application/json'',
                body = JObject [(''error'', JString m)]\<rparr>, d)"
    using assms
    by (simp add: App_getProduct_def zero_product_def respond_defs status_defs Error_def)
next
  assume "fault d = None \<and> \<not> int4 i"
  then have "getProduct d \<lparr>ID = i, Name = [], Price = 0\<rparr> = Inl (id_out_of_range i)"
    by (simp add: getProduct_def select_product_def)
  then show "App_getProduct d r =
              (\<lparr>code = 500, content_type = ''application/json'',
                body = JObject [(''error'', JString
                  (''pq: value \"'' @ FormatInt i @ ''\" is out of range for type integer''))]\<rparr>,
               d)"
    using assms
    by (simp add: App_getProduct_def zero_product_def respond_defs status_defs Error_def
          id_out_of_range_def)
qed

lemma Atoi_11: "Atoi ''11'' = (11, None)"
  by (simp add: Atoi_def is_digit_def digit_val_def)

theorem getProduct_not_found_and_failure_witness:
  "App_getProduct \<lparr>rows = [], seq = 0, fault = None\<rparr>
     \<lparr>Method = ''GET'', Path = ''/product/11'', Vars = [(''id'', ''11'')], Form = [], Body = None\<rparr> =
     (\<lparr>code = 404, content_type = ''application/json'',
       body = JObject [(''error'', JString ''Product not found'')]\<rparr>,
      \<lparr>rows = [], seq = 0, fault = None\<rparr>)
   \<and> App_getProduct \<lparr>rows = [], seq = 0, fault = Some ''pq: connection refused''\<rparr>
     \<lparr>Method = ''GET'', Path = ''/product/11'', Vars = [(''id'', ''11'')], Form = [], Body = None\<rparr> =
     (\<lparr>code = 500, content_type = ''application/json'',
       body = JObject [(''error'', JString ''pq: connection refused'')]\<rparr>,
      \<lparr>rows = [], seq = 0, fault = Some ''pq: connection refused''\<rparr>)"
proof -
  let ?r = "\<lparr>Method = ''GET'', Path = ''/product/11'', Vars = [(''id'', ''11'')], Form = [],
             Body = None\<rparr>"
  have a: "Atoi (lookup_string (Vars ?r) ''id'') = (11, None)"
    by (simp add: lookup_string_def Atoi_11)
  show ?thesis
    using getProduct_not_found_and_failure [OF a, of "\<lparr>rows = [], seq = 0, fault = None\<rparr>"]
      getProduct_not_found_and_failure [OF a,
        of "\<lparr>rows = [], seq = 0, fault = Some ''pq: connection refused''\<rparr>"]
    by (simp add: int4_def)
qed

lemma FormatInt_3000000000: "FormatInt 3000000000 = ''3000000000''"
  by (simp add: FormatInt_def FormatUint.simps digit_char_def)

text \<open>
  Claim C3, as stated, fails: no product is stored under the id 3000000000, and
  the request \<^verbatim>\<open>GET /product/3000000000\<close> is answered 500, not 404. The id parses
  as an \<^verbatim>\<open>int\<close>, the column cannot hold it, the statement fails, and the handler
  takes its default branch.
\<close>

theorem getProduct_absent_id_counterexample:
  "ServeHTTP \<lparr>rows = [], seq = 0, fault = None\<rparr>
     \<lparr>Method = ''GET'', Path = ''/product/3000000000'', Vars = [], Form = [], Body = None\<rparr> =
   (Handled \<lparr>code = 500, content_type = ''application/json'',
             body = JObject [(''error'',
               JString ''pq: value \"3000000000\" is out of range for type integer'')]\<rparr>,
    \<lparr>rows = [], seq = 0, fault = None\<rparr>)"
proof -
  have a: "Atoi ''3000000000'' = (3000000000, None)"
    by (simp add: Atoi_def is_digit_def digit_val_def)
  have m: "match_template (Numeric ''/product/'' ''id'') ''/product/3000000000'' =
     Some [(''id'', ''3000000000'')]"
    by (simp add: match_template_def is_digit_def)
  have l: "match_template (Literal ''/products'') ''/product/3000000000'' = None"
    "match_template (Literal ''/product'') ''/product/3000000000'' = None"
    by (simp_all add: match_template_def)
  have g: "getProduct \<lparr>rows = [], seq = 0, fault = None\<rparr> \<lparr>ID = 3000000000, Name = [], Price = 0\<rparr> =
             Inl (DriverError ''pq: value \"3000000000\" is out of range for type integer'')"
    by (simp add: getProduct_def select_product_def int4_def id_out_of_range_def
          FormatInt_3000000000)
  show ?thesis
    using a m l g
    by (simp add: ServeHTTP_def initializeRoutes_def App_getProduct_def lookup_string_def
          zero_product_def respond_defs status_defs Error_def)
qed

lemma foldl_append_slice: "foldl append_slice (Slice xs) rs = Slice (xs @ rs)"
  by (induction rs arbitrary: xs) auto

lemma getProducts_usable:
  assumes "fault d = None" and "0 \<le> start" and "0 \<le> count"
  shows "getProducts d start count = (Slice (take (nat count) (drop (nat start) (rows d))), None)"
  using assms by (simp add: getProducts_def select_products_def foldl_append_slice)

lemma lookup_string_absent: "map_of kvs k = None \<Longrightarrow> lookup_string kvs k = []"
  by (simp add: lookup_string_def)

lemma clamp_count:
  "(if c > 10 \<or> c < 1 then 10 else c) = (if 1 \<le> c \<and> c \<le> 10 then c else (10::int))"
  by auto

lemma Atoi_empty: "Atoi [] = (0, Some ErrSyntax)"
  by (simp add: Atoi_def ParseInt_def)

subsection \<open>ListProducts\<close>

text \<open>
  Claim C2. For every ListProducts request the range query runs with a count
  and a start computed so: the count is the parsed \<^verbatim>\<open>count\<close> parameter when that is
  between 1 and 10, and 10 otherwise (0, negative, above 10); the start is the parsed
  \<^verbatim>\<open>start\<close> parameter, or 0 when that is negative. An absent parameter parses as
  0, which gives the defaults count 10 and start 0. On a usable connection the
  response is therefore 200 with the at most count rows after the first start rows.
\<close>

theorem getProducts_clamps:
  "(let c = fst (Atoi (FormValue r ''count''));
        s = fst (Atoi (FormValue r ''start''));
        count = (if 1 \<le> c \<and> c \<le> 10 then c else 10);
        start = (if s < 0 then 0 else s)
    in App_getProducts d r =
           (case getProducts d start count of
              (_, Some e) \<Rightarrow> (respondWithError StatusInternalServerError (Error e), d)
            | (products, None) \<Rightarrow> (respondWithJSON StatusOK (PProducts products), d))
         \<and> 1 \<le> count \<and> count \<le> 10 \<and> 0 \<le> start
         \<and> (map_of (Form r) ''count'' = None \<longrightarrow> count = 10)
         \<and> (map_of (Form r) ''start'' = None \<longrightarrow> start = 0)
         \<and> (fault d = None \<longrightarrow>
              App_getProducts d r =
                (\<lparr>code = 200, content_type = ''application/json'',
                  body = JArray (map marshal_product
                           (take (nat count) (drop (nat start) (rows d))))\<rparr>, d)))"
proof -
  define c where "c = fst (Atoi (FormValue r ''count''))"
  define s where "s = fst (Atoi (FormValue r ''start''))"
  define count where "count = (if 1 \<le> c \<and> c \<le> 10 then c else 10)"
  define start where "start = (if s < 0 then 0 else s)"
  have h: "App_getProducts d r =
           (case getProducts d start count of
              (_, Some e) \<Rightarrow> (respondWithError StatusInternalServerError (Error e), d)
            | (products, None) \<Rightarrow> (respondWithJSON StatusOK (PProducts products), d))"
    by (simp only: App_getProducts_def Let_def clamp_count c_def s_def count_def start_def)
  have b: "1 \<le> count \<and> count \<le> 10 \<and> 0 \<le> start"
    by (simp add: count_def start_def)
  have dc: "map_of (Form r) ''count'' = None \<longrightarrow> count = 10"
    by (simp add: count_def c_def FormValue_def lookup_string_absent Atoi_empty)
  have ds: "map_of (Form r) ''start'' = None \<longrightarrow> start = 0"
    by (simp add: start_def s_def FormValue_def lookup_string_absent Atoi_empty)
  have u: "fault d = None \<longrightarrow>
              App_getProducts d r =
                (\<lparr>code = 200, content_type = ''application/json'',
                  body = JArray (map marshal_product
                           (take (nat count) (drop (nat start) (rows d))))\<rparr>, d)"
    using b by (simp add: h getProducts_usable respond_defs status_defs)
  show ?thesis
    unfolding Let_def
    using h b dc ds u
    unfolding c_def s_def count_def start_def
    by blast
qed

lemma Atoi_0: "Atoi ''0'' = (0, None)"
  by (simp add: Atoi_def is_digit_def digit_val_def)

lemma Atoi_minus_2: "Atoi ''-2'' = (- 2, None)"
  by (simp add: Atoi_def is_digit_def digit_val_def)

theorem getProducts_clamps_witness:
  "App_getProducts
     \<lparr>rows = [\<lparr>ID = 1, Name = ''a'', Price = 1\<rparr>, \<lparr>ID = 2, Name = ''b'', Price = 2\<rparr>],
      seq = 2, fault = None\<rparr>
     \<lparr>Method = ''GET'', Path = ''/products'', Vars = [],
      Form = [(''count'', ''0''), (''start'', ''-2'')], Body = None\<rparr> =
   (\<lparr>code = 200, content_type = ''application/json'',
     body = JArray [JObject [(''id'', JInt 1), (''name'', JString ''a''), (''price'', JInt 1)],
                    JObject [(''id'', JInt 2), (''name'', JString ''b''), (''price'', JInt 2)]]\<rparr>,
    \<lparr>rows = [\<lparr>ID = 1, Name = ''a'', Price = 1\<rparr>, \<lparr>ID = 2, Name = ''b'', Price = 2\<rparr>],
      seq = 2, fault = None\<rparr>)"
  using getProducts_clamps
    [of "\<lparr>Method = ''GET'', Path = ''/products'', Vars = [],
          Form = [(''count'', ''0''), (''start'', ''-2'')], Body = None\<rparr>"
        "\<lparr>rows = [\<lparr>ID = 1, Name = ''a'', Price = 1\<rparr>, \<lparr>ID = 2, Name = ''b'', Price = 2\<rparr>],
          seq = 2, fault = None\<rparr>"]
  by (auto simp add: Let_def FormValue_def lookup_string_def Atoi_0 Atoi_minus_2
        marshal_product_def marshal_float_def)

lemma App_getProducts_usable:
  assumes "fault d = None"
  shows "App_getProducts d r =
           (\<lparr>code = 200, content_type = ''application/json'',
             body = JArray (map marshal_product
               (take (nat (if fst (Atoi (FormValue r ''count'')) > 10
                              \<or> fst (Atoi (FormValue r ''count'')) < 1
                           then 10 else fst (Atoi (FormValue r ''count''))))
                  (drop (nat (if fst (Atoi (FormValue r ''start'')) < 0 then 0
                              else fst (Atoi (FormValue r ''start''))))
                     (rows d))))\<rparr>, d)"
  using assms
  by (simp add: App_getProducts_def Let_def getProducts_usable respond_defs status_defs)

text \<open>
  Claim C8. When the range query of ListProducts selects no row (the table is
  empty, or has no more rows than the start skips), \<^verbatim>\<open>getProducts\<close> returns the
  empty, non-nil slice and no error, and the handler responds 200 with the JSON
  array \<^verbatim>\<open>[]\<close>, which is not \<^verbatim>\<open>null\<close>.
\<close>

theorem getProducts_empty_array:
  assumes "fault d = None"
    and "length (rows d) \<le> nat (fst (Atoi (FormValue r ''start'')))"
  shows "(\<forall>start count. 0 \<le> count \<and> 0 \<le> start \<and> length (rows d) \<le> nat start \<longrightarrow>
            getProducts d start count = (Slice [], None))
         \<and> App_getProducts d r =
             (\<lparr>code = 200, content_type = ''application/json'', body = JArray []\<rparr>, d)
         \<and> JArray [] \<noteq> JNull
         \<and> Marshal (PProducts (Slice [])) \<noteq> Marshal (PProducts NilSlice)"
proof -
  let ?s = "fst (Atoi (FormValue r ''start''))"
  have a: "getProducts d start count = (Slice [], None)"
    if "0 \<le> count" "0 \<le> start" "length (rows d) \<le> nat start" for start count
    using that assms(1) by (simp add: getProducts_usable)
  have "drop (nat (if ?s < 0 then 0 else ?s)) (rows d) = []"
    using assms(2) by auto
  then have b: "App_getProducts d r =
             (\<lparr>code = 200, content_type = ''application/json'', body = JArray []\<rparr>, d)"
    by (simp only: App_getProducts_usable [OF assms(1)] take_Nil list.map)
  show ?thesis
    using a b by simp
qed

theorem getProducts_empty_array_witness:
  "App_getProducts \<lparr>rows = [], seq = 0, fault = None\<rparr>
     \<lparr>Method = ''GET'', Path = ''/products'', Vars = [], Form = [], Body = None\<rparr> =
   (\<lparr>code = 200, content_type = ''application/json'', body = JArray []\<rparr>,
    \<lparr>rows = [], seq = 0, fault = None\<rparr>)"
  using getProducts_empty_array
    [of "\<lparr>rows = [], seq = 0, fault = None\<rparr>"
        "\<lparr>Method = ''GET'', Path = ''/products'', Vars = [], Form = [], Body = None\<rparr>"]
  by simp

lemma filter_none: "i \<notin> f ` set xs \<Longrightarrow> filter (\<lambda>r. f r = i) xs = []"
  by (induction xs) auto

lemma filter_all: "i \<notin> f ` set xs \<Longrightarrow> filter (\<lambda>r. f r \<noteq> i) xs = xs"
  by (induction xs) auto

lemma map_unmatched:
  "i \<notin> f ` set xs \<Longrightarrow> map (\<lambda>r. if f r = i then g r else r) xs = xs"
  by (induction xs) auto

lemma update_products_absent:
  assumes "fault d = None" and "int4 i" and "numeric_10_2 pr = Inr pr1"
    and "i \<notin> ID ` set (rows d)"
  shows "update_products d n pr i = (Inr 0, d)"
  using assms by (simp add: update_products_def filter_none map_unmatched)

lemma delete_products_absent:
  assumes "fault d = None" and "int4 i" and "i \<notin> ID ` set (rows d)"
  shows "delete_products d i = (Inr 0, d)"
  using assms by (simp add: delete_products_def filter_none filter_all)

subsection \<open>Update and delete of an id that is not stored\<close>

text \<open>
  Claim C4. \<^verbatim>\<open>updateProduct\<close> and \<^verbatim>\<open>deleteProduct\<close> return no error whenever
  the statement returns a result, whatever number of rows it affected. For an id
  that the id column can hold and no stored product has, on a usable connection
  (and, for the update, a price the column accepts), the statement does not fail: it
  affects no row and changes nothing, and the
  handlers answer as they do for a stored id: UpdateProduct 200 with the path id and
  the submitted name and price, DeleteProduct 200 with \<^verbatim>\<open>{"result":"success"}\<close>.
\<close>

theorem update_delete_ignore_rows_affected:
  assumes "Atoi (lookup_string (Vars r) ''id'') = (i, None)"
    and "fault d = None"
  shows "(\<forall>n p0 d1. Decode (Body r) zero_product = (p0, None)
            \<and> update_products d (Name p0) (Price p0) i = (Inr n, d1) \<longrightarrow>
            updateProduct d (p0\<lparr>ID := i\<rparr>) = (None, d1)
            \<and> App_updateProduct d r =
                (\<lparr>code = 200, content_type = ''application/json'',
                  body = JObject [(''id'', JInt i), (''name'', JString (Name p0)),
                                  (''price'', marshal_float (Price p0))]\<rparr>, d1))
         \<and> (\<forall>p0 pr1. Decode (Body r) zero_product = (p0, None) \<and> int4 i
            \<and> numeric_10_2 (Price p0) = Inr pr1 \<and> i \<notin> ID ` set (rows d) \<longrightarrow>
            update_products d (Name p0) (Price p0) i = (Inr 0, d))
         \<and> (\<forall>n d1. delete_products d i = (Inr n, d1) \<longrightarrow>
            deleteProduct d \<lparr>ID = i, Name = [], Price = 0\<rparr> = (None, d1)
            \<and> App_deleteProduct d r =
                (\<lparr>code = 200, content_type = ''application/json'',
                  body = JObject [(''result'', JString ''success'')]\<rparr>, d1))
         \<and> (int4 i \<and> i \<notin> ID ` set (rows d) \<longrightarrow> delete_products d i = (Inr 0, d))"
proof (intro conjI allI impI)
  fix n p0 d1
  assume a: "Decode (Body r) zero_product = (p0, None)
            \<and> update_products d (Name p0) (Price p0) i = (Inr n, d1)"
  then show u: "updateProduct d (p0\<lparr>ID := i\<rparr>) = (None, d1)"
    by (simp add: updateProduct_def)
  show "App_updateProduct d r =
                (\<lparr>code = 200, content_type = ''application/json'',
                  body = JObject [(''id'', JInt i), (''name'', JString (Name p0)),
                                  (''price'', marshal_float (Price p0))]\<rparr>, d1)"
    using a u assms(1)
    by (simp add: App_updateProduct_def Let_def respond_defs status_defs marshal_product_def)
next
  fix p0 pr1
  assume "Decode (Body r) zero_product = (p0, None) \<and> int4 i
            \<and> numeric_10_2 (Price p0) = Inr pr1 \<and> i \<notin> ID ` set (rows d)"
  then show "update_products d (Name p0) (Price p0) i = (Inr 0, d)"
    using update_products_absent assms(2) by blast
next
  fix n d1
  assume a: "delete_products d i = (Inr n, d1)"
  then show u: "deleteProduct d \<lparr>ID = i, Name = [], Price = 0\<rparr> = (None, d1)"
    by (simp add: deleteProduct_def)
  show "App_deleteProduct d r =
                (\<lparr>code = 200, content_type = ''application/json'',
                  body = JObject [(''result'', JString ''success'')]\<rparr>, d1)"
    using u assms(1)
    by (simp add: App_deleteProduct_def zero_product_def respond_defs status_defs)
next
  assume "int4 i \<and> i \<notin> ID ` set (rows d)"
  then show "delete_products d i = (Inr 0, d)"
    using delete_products_absent assms(2) by blast
qed

theorem update_delete_ignore_rows_affected_witness:
  "App_updateProduct \<lparr>rows = [\<lparr>ID = 1, Name = ''a'', Price = 1\<rparr>], seq = 1, fault = None\<rparr>
     \<lparr>Method = ''PUT'', Path = ''/product/7'', Vars = [(''id'', ''7'')], Form = [],
      Body = Some (JObject [(''name'', JString ''c''), (''price'', JInt 3)])\<rparr> =
   (\<lparr>code = 200, content_type = ''application/json'',
     body = JObject [(''id'', JInt 7), (''name'', JString ''c''), (''price'', JInt 3)]\<rparr>,
    \<lparr>rows = [\<lparr>ID = 1, Name = ''a'', Price = 1\<rparr>], seq = 1, fault = None\<rparr>)
   \<and> App_deleteProduct \<lparr>rows = [\<lparr>ID = 1, Name = ''a'', Price = 1\<rparr>], seq = 1, fault = None\<rparr>
     \<lparr>Method = ''DELETE'', Path = ''/product/7'', Vars = [(''id'', ''7'')], Form = [],
      Body = Some (JObject [(''name'', JString ''c''), (''price'', JInt 3)])\<rparr> =
   (\<lparr>code = 200, content_type = ''application/json'',
     body = JObject [(''result'', JString ''success'')]\<rparr>,
    \<lparr>rows = [\<lparr>ID = 1, Name = ''a'', Price = 1\<rparr>], seq = 1, fault = None\<rparr>)"
proof -
  let ?d = "\<lparr>rows = [\<lparr>ID = 1, Name = ''a'', Price = 1\<rparr>], seq = 1, fault = None\<rparr>"
  let ?r = "\<lparr>Method = ''PUT'', Path = ''/product/7'', Vars = [(''id'', ''7'')], Form = [],
      Body = Some (JObject [(''name'', JString ''c''), (''price'', JInt 3)])\<rparr>"
  let ?r2 = "\<lparr>Method = ''DELETE'', Path = ''/product/7'', Vars = [(''id'', ''7'')], Form = [],
      Body = Some (JObject [(''name'', JString ''c''), (''price'', JInt 3)])\<rparr>"
  let ?p0 = "\<lparr>ID = 0, Name = ''c'', Price = 3\<rparr>"
  have a: "Atoi (lookup_string (Vars ?r) ''id'') = (7, None)"
    by (simp add: lookup_string_def Atoi_7)
  have a2: "Atoi (lookup_string (Vars ?r2) ''id'') = (7, None)"
    by (simp add: lookup_string_def Atoi_7)
  have f: "fault ?d = None" by simp
  have b: "Decode (Body ?r) zero_product = (?p0, None)"
    by (simp add: Decode_def Unmarshal_product_def field_of_key_def float64_overflows_def
          zero_product_def)
  have c: "numeric_10_2 (Price ?p0) = Inr 3"
    by (simp add: numeric_10_2_def round2_def)
  have m: "marshal_float 3 = JInt 3"
    by (simp add: marshal_float_def)
  have n: "7 \<notin> ID ` set (rows ?d)" by simp
  have i4: "int4 7" by (simp add: int4_def)
  have u: "update_products ?d (Name ?p0) (Price ?p0) 7 = (Inr 0, ?d)"
    using update_delete_ignore_rows_affected [OF a f] b c n i4 by blast
  have "App_updateProduct ?d ?r =
     (\<lparr>code = 200, content_type = ''application/json'',
       body = JObject [(''id'', JInt 7), (''name'', JString (Name ?p0)),
                       (''price'', marshal_float (Price ?p0))]\<rparr>, ?d)"
    using update_delete_ignore_rows_affected [OF a f] b u by blast
  moreover have "delete_products ?d 7 = (Inr 0, ?d)"
    using update_delete_ignore_rows_affected [OF a2 f] n i4 by blast
  then have "App_deleteProduct ?d ?r2 =
     (\<lparr>code = 200, content_type = ''application/json'',
       body = JObject [(''result'', JString ''success'')]\<rparr>, ?d)"
    using update_delete_ignore_rows_affected [OF a2 f] by blast
  ultimately show ?thesis
    using m by simp
qed

subsection \<open>Create, then fetch\<close>

text \<open>
  Claim C1. For every name and every price that the price column holds as it
  is (two fractional digits, below \<open>10\<^sup>8\<close> in magnitude): when \<^verbatim>\<open>createProduct\<close>
  succeeds, \<^verbatim>\<open>getProduct\<close> on the resulting database with the id the insert
  returned succeeds and yields that id with the name and the price submitted.
\<close>

theorem create_then_get:
  assumes "createProduct d p = (Inr p1, d1)"
    and "numeric_10_2 (Price p) = Inr (Price p)"
    and "ID q = ID p1"
  shows "getProduct d1 q = Inr \<lparr>ID = ID p1, Name = Name p, Price = Price p\<rparr>"
proof -
  have c: "insert_product d (Name p) (Price p) = (Inr (ID p1), d1)"
    using createProduct_Inr [OF assms(1)] by blast
  note i = insert_product_Inr [OF c]
  have r: "round2 (Price p) = Price p"
    using assms(2) by (simp add: numeric_10_2_def split: if_splits)
  let ?row = "\<lparr>ID = ID p1, Name = Name p, Price = Price p\<rparr>"
  have rows: "rows d1 = rows d @ [?row]" and f: "fault d1 = None" and i4: "int4 (ID p1)"
    using i r by auto
  have "ID p1 \<notin> ID ` set (rows d)"
    using i by blast
  then have "\<forall>x\<in>set (rows d). \<not> ID x = ID p1"
    by (metis imageI)
  then have "find (\<lambda>x. ID x = ID p1) (rows d1) = Some ?row"
    unfolding rows by (rule find_append_fresh) simp
  then have "select_product d1 (ID q) = Inr (Name p, Price p)"
    using f i4 assms(3) by (simp add: select_product_def)
  then show ?thesis
    using assms(3) by (cases q) (simp add: getProduct_def)
qed

theorem create_then_get_witness:
  "createProduct \<lparr>rows = [\<lparr>ID = 1, Name = ''a'', Price = 1\<rparr>], seq = 1, fault = None\<rparr>
     \<lparr>ID = 0, Name = ''test product'', Price = 1122 / 100\<rparr> =
     (Inr \<lparr>ID = 2, Name = ''test product'', Price = 1122 / 100\<rparr>,
      \<lparr>rows = [\<lparr>ID = 1, Name = ''a'', Price = 1\<rparr>,
               \<lparr>ID = 2, Name = ''test product'', Price = 1122 / 100\<rparr>], seq = 2, fault = None\<rparr>)
   \<and> getProduct
       \<lparr>rows = [\<lparr>ID = 1, Name = ''a'', Price = 1\<rparr>,
               \<lparr>ID = 2, Name = ''test product'', Price = 1122 / 100\<rparr>], seq = 2, fault = None\<rparr>
       \<lparr>ID = 2, Name = [], Price = 0\<rparr> =
     Inr \<lparr>ID = 2, Name = ''test product'', Price = 1122 / 100\<rparr>"
proof -
  let ?d = "\<lparr>rows = [\<lparr>ID = 1, Name = ''a'', Price = 1\<rparr>], seq = 1, fault = None\<rparr>"
  let ?p = "\<lparr>ID = 0, Name = ''test product'', Price = 1122 / 100\<rparr>"
  let ?p1 = "\<lparr>ID = 2, Name = ''test product'', Price = 1122 / 100\<rparr>"
  let ?d1 = "\<lparr>rows = [\<lparr>ID = 1, Name = ''a'', Price = 1\<rparr>,
               \<lparr>ID = 2, Name = ''test product'', Price = 1122 / 100\<rparr>], seq = 2, fault = None\<rparr>"
  have a: "createProduct ?d ?p = (Inr ?p1, ?d1)"
    by (simp add: createProduct_def insert_product_def numeric_10_2_def round2_def int4_def)
  have b: "numeric_10_2 (Price ?p) = Inr (Price ?p)"
    by (simp add: numeric_10_2_def round2_def)
  have c: "ID \<lparr>ID = 2, Name = [], Price = 0\<rparr> = ID ?p1" by simp
  show ?thesis
    using create_then_get [OF a b c] a by simp
qed

lemma store_field_error_indep:
  "snd (store_field f v p) = snd (store_field f v q)"
  by (cases "(f, v, p)" rule: store_field.cases) auto

lemma store_field_other_price:
  "f \<noteq> F_price \<Longrightarrow> Price (fst (store_field f v p)) = Price p"
  by (cases "(f, v, p)" rule: store_field.cases) auto

lemma store_field_other_name:
  "f \<noteq> F_name \<Longrightarrow> Name (fst (store_field f v p)) = Name p"
  by (cases "(f, v, p)" rule: store_field.cases) auto

lemma decode_object_omitted:
  assumes "\<forall>kv\<in>set kvs. \<forall>f. field_of_key (fst kv) = Some f \<longrightarrow>
             f \<noteq> g \<and> snd (store_field f (snd kv) zero_product) = None"
  shows "snd (decode_object kvs p e) = e
         \<and> (g = F_price \<longrightarrow> Price (fst (decode_object kvs p e)) = Price p)
         \<and> (g = F_name \<longrightarrow> Name (fst (decode_object kvs p e)) = Name p)"
  using assms
proof (induction kvs arbitrary: p)
  case Nil
  then show ?case by simp
next
  case (Cons kv kvs)
  obtain k v where kv: "kv = (k, v)" by (cases kv)
  show ?case
  proof (cases "field_of_key k")
    case None
    then show ?thesis using Cons kv by simp
  next
    case (Some f)
    obtain p1 e1 where s: "store_field f v p = (p1, e1)" by (cases "store_field f v p")
    have fg: "f \<noteq> g" and ok: "snd (store_field f v zero_product) = None"
      using Cons.prems Some kv by auto
    have e1: "e1 = None"
      using ok s store_field_error_indep [of f v p zero_product] by simp
    have pp: "g = F_price \<longrightarrow> Price p1 = Price p"
      using store_field_other_price [of f v p] fg s by auto
    have pn: "g = F_name \<longrightarrow> Name p1 = Name p"
      using store_field_other_name [of f v p] fg s by auto
    have ih: "snd (decode_object kvs p1 e) = e
         \<and> (g = F_price \<longrightarrow> Price (fst (decode_object kvs p1 e)) = Price p1)
         \<and> (g = F_name \<longrightarrow> Name (fst (decode_object kvs p1 e)) = Name p1)"
      using Cons.IH [of p1] Cons.prems by simp
    show ?thesis
      using ih pp pn by (simp add: kv Some s e1)
  qed
qed


subsection \<open>A body that omits a field\<close>

text \<open>
  Claim C9, as amended. A CreateProduct or UpdateProduct request whose body is a
  JSON object that omits the price (or the name), its other members being of the
  kinds their fields take, is accepted as it is: decoding reports no error, the
  omitted field keeps its zero value (price 0, name the empty string), and the
  handler goes on to the insert or the update with that value. The handlers have no
  check for a required field.
\<close>

theorem omitted_field_accepted:
  assumes "Body r = Some (JObject kvs)"
    and "\<forall>kv\<in>set kvs. \<forall>f. field_of_key (fst kv) = Some f \<longrightarrow>
           f \<noteq> g \<and> snd (store_field f (snd kv) zero_product) = None"
  shows "\<exists>p. Decode (Body r) zero_product = (p, None)
           \<and> (g = F_price \<longrightarrow> Price p = 0)
           \<and> (g = F_name \<longrightarrow> Name p = [])
           \<and> App_createProduct d r =
               (case createProduct d p of
                  (Inl e, d1) \<Rightarrow> (respondWithError StatusInternalServerError (Error e), d1)
                | (Inr p1, d1) \<Rightarrow> (respondWithJSON StatusCreated (PProduct p1), d1))
           \<and> (\<forall>i. Atoi (lookup_string (Vars r) ''id'') = (i, None) \<longrightarrow>
                App_updateProduct d r =
                  (case updateProduct d (p\<lparr>ID := i\<rparr>) of
                     (Some e, d1) \<Rightarrow> (respondWithError StatusInternalServerError (Error e), d1)
                   | (None, d1) \<Rightarrow> (respondWithJSON StatusOK (PProduct (p\<lparr>ID := i\<rparr>)), d1)))"
proof -
  obtain p e where pe: "decode_object kvs zero_product None = (p, e)"
    by (cases "decode_object kvs zero_product None")
  note o = decode_object_omitted [OF assms(2), of zero_product None]
  have e: "e = None" using o pe by simp
  have dec: "Decode (Body r) zero_product = (p, None)"
    using pe e assms(1) by (simp add: Decode_def Unmarshal_product_def)
  have pr: "g = F_price \<longrightarrow> Price p = 0" and nm: "g = F_name \<longrightarrow> Name p = []"
    using o pe by (simp_all add: zero_product_def)
  have c: "App_createProduct d r =
               (case createProduct d p of
                  (Inl e, d1) \<Rightarrow> (respondWithError StatusInternalServerError (Error e), d1)
                | (Inr p1, d1) \<Rightarrow> (respondWithJSON StatusCreated (PProduct p1), d1))"
    by (simp add: App_createProduct_def dec)
  have u: "App_updateProduct d r =
                  (case updateProduct d (p\<lparr>ID := i\<rparr>) of
                     (Some e, d1) \<Rightarrow> (respondWithError StatusInternalServerError (Error e), d1)
                   | (None, d1) \<Rightarrow> (respondWithJSON StatusOK (PProduct (p\<lparr>ID := i\<rparr>)), d1))"
    if "Atoi (lookup_string (Vars r) ''id'') = (i, None)" for i
    using that by (simp add: App_updateProduct_def dec Let_def)
  show ?thesis
    using dec pr nm c u by blast
qed

theorem omitted_field_accepted_witness:
  "App_updateProduct \<lparr>rows = [\<lparr>ID = 1, Name = ''a'', Price = 5\<rparr>], seq = 1, fault = None\<rparr>
     \<lparr>Method = ''PUT'', Path = ''/product/1'', Vars = [(''id'', ''1'')], Form = [],
      Body = Some (JObject [(''name'', JString ''b'')])\<rparr> =
   (\<lparr>code = 200, content_type = ''application/json'',
     body = JObject [(''id'', JInt 1), (''name'', JString ''b''), (''price'', JInt 0)]\<rparr>,
    \<lparr>rows = [\<lparr>ID = 1, Name = ''b'', Price = 0\<rparr>], seq = 1, fault = None\<rparr>)"
proof -
  let ?d = "\<lparr>rows = [\<lparr>ID = 1, Name = ''a'', Price = 5\<rparr>], seq = 1, fault = None\<rparr>"
  let ?kvs = "[(''name'', JString ''b'')]"
  let ?r = "\<lparr>Method = ''PUT'', Path = ''/product/1'', Vars = [(''id'', ''1'')], Form = [],
      Body = Some (JObject ?kvs)\<rparr>"
  have a: "Body ?r = Some (JObject ?kvs)" by simp
  have b: "\<forall>kv\<in>set ?kvs. \<forall>f. field_of_key (fst kv) = Some f \<longrightarrow>
           f \<noteq> F_price \<and> snd (store_field f (snd kv) zero_product) = None"
    by (simp add: field_of_key_def)
  have dec: "Decode (Body ?r) zero_product = (\<lparr>ID = 0, Name = ''b'', Price = 0\<rparr>, None)"
    by (simp add: Decode_def Unmarshal_product_def field_of_key_def zero_product_def)
  have i: "Atoi (lookup_string (Vars ?r) ''id'') = (1, None)"
    by (simp add: lookup_string_def Atoi_1)
  have u: "updateProduct ?d \<lparr>ID = 1, Name = ''b'', Price = 0\<rparr> =
             (None, \<lparr>rows = [\<lparr>ID = 1, Name = ''b'', Price = 0\<rparr>], seq = 1, fault = None\<rparr>)"
    by (simp add: updateProduct_def update_products_def numeric_10_2_def round2_def int4_def)
  have m: "marshal_float 0 = JInt 0"
    by (simp add: marshal_float_def)
  from omitted_field_accepted [OF a b, of ?d] obtain p where
    p: "Decode (Body ?r) zero_product = (p, None)"
    and h: "\<forall>i. Atoi (lookup_string (Vars ?r) ''id'') = (i, None) \<longrightarrow>
                App_updateProduct ?d ?r =
                  (case updateProduct ?d (p\<lparr>ID := i\<rparr>) of
                     (Some e, d1) \<Rightarrow> (respondWithError StatusInternalServerError (Error e), d1)
                   | (None, d1) \<Rightarrow> (respondWithJSON StatusOK (PProduct (p\<lparr>ID := i\<rparr>)), d1))"
    by blast
  have "p = \<lparr>ID = 0, Name = ''b'', Price = 0\<rparr>"
    using p dec by simp
  then show ?thesis
    using h i u m by (simp add: respond_defs status_defs marshal_product_def)
qed

text \<open>
  Claim C9, as stated, fails: a CreateProduct request whose body is
  \<^verbatim>\<open>{"name":"x"}\<close>, with no price, is answered 201 and a row with price 0 is stored.
\<close>

theorem omitted_price_counterexample:
  "App_createProduct \<lparr>rows = [], seq = 0, fault = None\<rparr>
     \<lparr>Method = ''POST'', Path = ''/product'', Vars = [], Form = [],
      Body = Some (JObject [(''name'', JString ''x'')])\<rparr> =
   (\<lparr>code = 201, content_type = ''application/json'',
     body = JObject [(''id'', JInt 1), (''name'', JString ''x''), (''price'', JInt 0)]\<rparr>,
    \<lparr>rows = [\<lparr>ID = 1, Name = ''x'', Price = 0\<rparr>], seq = 1, fault = None\<rparr>)"
  by (simp add: App_createProduct_def Decode_def Unmarshal_product_def field_of_key_def
        zero_product_def createProduct_def insert_product_def numeric_10_2_def round2_def int4_def
        respond_defs status_defs marshal_product_def marshal_float_def)

lemma digit_val_le: "is_digit c \<Longrightarrow> digit_val c \<le> 9"
  by (auto simp: is_digit_def digit_val_def)

lemma is_digit_not_sign: "is_digit c \<Longrightarrow> c \<noteq> CHR ''-'' \<and> c \<noteq> CHR ''+''"
  by (auto simp: is_digit_def)

lemma decimal_from_ge: "n \<le> decimal_from n cs"
proof (induction cs arbitrary: n)
  case Nil
  then show ?case by simp
next
  case (Cons c cs)
  have "n \<le> n * 10 + digit_val c" by simp
  also have "\<dots> \<le> decimal_from (n * 10 + digit_val c) cs" by (rule Cons.IH)
  finally show ?case by simp
qed

lemma decimal_from_less:
  "list_all is_digit cs \<Longrightarrow> decimal_from n cs < (n + 1) * 10 ^ length cs"
proof (induction cs arbitrary: n)
  case Nil
  then show ?case by simp
next
  case (Cons c cs)
  then have d: "digit_val c \<le> 9" and r: "list_all is_digit cs"
    by (simp_all add: digit_val_le)
  have "decimal_from (n * 10 + digit_val c) cs < (n * 10 + digit_val c + 1) * 10 ^ length cs"
    by (rule Cons.IH [OF r])
  also have "\<dots> \<le> (n * 10 + 10) * 10 ^ length cs"
    using d by (intro mult_right_mono) simp_all
  also have "\<dots> = (n + 1) * 10 ^ length (c # cs)"
    by (simp add: algebra_simps)
  finally show ?case by simp
qed

lemma Atoi_fast_loop_digits:
  "list_all is_digit cs \<Longrightarrow> Atoi_fast_loop (int n) cs = Some (int (decimal_from n cs))"
proof (induction cs arbitrary: n)
  case Nil
  then show ?case by simp
next
  case (Cons c cs)
  then have r: "list_all is_digit cs" and c: "is_digit c" by simp_all
  show ?case
    using Cons.IH [OF r, of "n * 10 + digit_val c"] c by simp
qed

lemma ParseUint_loop_digits:
  "list_all is_digit cs \<Longrightarrow> n \<le> maxUint64 \<Longrightarrow>
   ParseUint_loop n cs =
     (if decimal_from n cs \<le> maxUint64 then (decimal_from n cs, None)
      else (maxUint64, Some ErrRange))"
proof (induction cs arbitrary: n)
  case Nil
  then show ?case by simp
next
  case (Cons c cs)
  then have r: "list_all is_digit cs" and c: "is_digit c" by simp_all
  have d: "digit_val c \<le> 9" using c by (rule digit_val_le)
  have ge: "n * 10 + digit_val c \<le> decimal_from n (c # cs)"
    using decimal_from_ge [of "n * 10 + digit_val c" cs] by simp
  show ?case
  proof (cases "n \<ge> maxUint64 div 10 + 1")
    case True
    then have "maxUint64 < n * 10 + digit_val c"
      by (simp add: maxUint64_def)
    then have "\<not> decimal_from n (c # cs) \<le> maxUint64"
      using ge by linarith
    then show ?thesis
      using True c by simp
  next
    case False
    let ?m = "n * 10"
    show ?thesis
    proof (cases "?m + digit_val c < 2 ^ 64")
      case True
      then have n1: "(?m + digit_val c) mod 2 ^ 64 = ?m + digit_val c"
        by simp
      have le: "?m + digit_val c \<le> maxUint64"
        using True by (simp add: maxUint64_def)
      show ?thesis
        using False c n1 le Cons.IH [OF r le]
        by (simp add: Let_def)
    next
      case wrap: False
      have lt: "?m + digit_val c < 2 * 2 ^ 64"
        using False d by (simp add: maxUint64_def)
      have "(?m + digit_val c) mod 2 ^ 64 = (?m + digit_val c - 2 ^ 64) mod 2 ^ 64"
        using wrap by (simp add: le_mod_geq)
      also have "\<dots> = ?m + digit_val c - 2 ^ 64"
        using lt by simp
      finally have n1: "(?m + digit_val c) mod 2 ^ 64 = ?m + digit_val c - 2 ^ 64" .
      have small: "?m + digit_val c - 2 ^ 64 < ?m"
        using wrap d by simp
      have "maxUint64 < ?m + digit_val c"
        using wrap by (simp add: maxUint64_def)
      then have "\<not> decimal_from n (c # cs) \<le> maxUint64"
        using ge by linarith
      then show ?thesis
        using False c n1 small by (simp add: Let_def)
    qed
  qed
qed


lemma Atoi_digits:
  assumes "cs \<noteq> []" and "list_all is_digit cs"
  shows "Atoi cs =
           (if int (decimal cs) \<le> maxInt then (int (decimal cs), None)
            else (maxInt, Some ErrRange))"
proof -
  obtain c cs' where cs: "cs = c # cs'"
    using assms(1) by (cases cs) auto
  then have "is_digit c" using assms(2) by simp
  then have sign: "hd cs \<noteq> CHR ''-''" "hd cs \<noteq> CHR ''+''"
    using is_digit_not_sign cs by auto
  show ?thesis
  proof (cases "length cs < 19")
    case True
    have "decimal_from 0 cs < (0 + 1) * 10 ^ length cs"
      by (rule decimal_from_less [OF assms(2)])
    also have "\<dots> \<le> 10 ^ 18"
      using True power_increasing [of "length cs" 18 "10::nat"] by simp
    finally have "int (decimal cs) \<le> maxInt"
      by (simp add: decimal_def maxInt_def)
    moreover have "Atoi_fast_loop 0 cs = Some (int (decimal cs))"
      using Atoi_fast_loop_digits [OF assms(2), of 0] by (simp add: decimal_def)
    ultimately show ?thesis
      using True assms(1) sign by (simp add: Atoi_def)
  next
    case False
    have u: "ParseUint cs =
       (if decimal cs \<le> maxUint64 then (decimal cs, None) else (maxUint64, Some ErrRange))"
      using ParseUint_loop_digits [OF assms(2), of 0] assms(1)
      by (simp add: ParseUint_def decimal_def)
    have a: "Atoi cs = ParseInt cs"
      using False by (simp add: Atoi_def)
    show ?thesis
    proof (cases "decimal cs \<le> maxUint64")
      case True
      then show ?thesis
        using a u assms(1) sign by (auto simp: ParseInt_def maxInt_def)
    next
      case over: False
      then have "\<not> int (decimal cs) \<le> maxInt"
        by (simp add: maxInt_def maxUint64_def)
      then show ?thesis
        using a u over assms(1) sign by (simp add: ParseInt_def maxInt_def maxUint64_def)
    qed
  qed
qed

lemma match_template_Numeric:
  assumes "match_template (Numeric pre v) path = Some vs"
  shows "\<exists>seg. path = pre @ seg \<and> vs = [(v, seg)] \<and> seg \<noteq> [] \<and> list_all is_digit seg"
proof -
  let ?seg = "drop (length pre) path"
  have c: "take (length pre) path = pre \<and> ?seg \<noteq> [] \<and> list_all is_digit ?seg"
    and vs: "vs = [(v, ?seg)]"
    using assms by (auto simp: match_template_def Let_def split: if_splits)
  have "path = pre @ ?seg"
    using c append_take_drop_id [of "length pre" path] by simp
  then show ?thesis using c vs by blast
qed


lemma lookup_string_single: "lookup_string [(k, v)] k = v"
  by (simp add: lookup_string_def)

lemma App_getProduct_invalid_iff:
  "fst (App_getProduct d r) = respondWithError StatusBadRequest ''Invalid product ID''
   \<longleftrightarrow> snd (Atoi (lookup_string (Vars r) ''id'')) \<noteq> None"
  by (cases "Atoi (lookup_string (Vars r) ''id'')")
     (auto simp: App_getProduct_def respond_defs status_defs
           split: sum.splits db_error.splits option.splits)

lemma App_updateProduct_invalid_iff:
  "fst (App_updateProduct d r) = respondWithError StatusBadRequest ''Invalid product ID''
   \<longleftrightarrow> snd (Atoi (lookup_string (Vars r) ''id'')) \<noteq> None"
  by (cases "Atoi (lookup_string (Vars r) ''id'')")
     (auto simp: App_updateProduct_def Let_def respond_defs status_defs
           split: prod.splits option.splits)

lemma App_deleteProduct_invalid_iff:
  "fst (App_deleteProduct d r) = respondWithError StatusBadRequest ''Invalid Product ID''
   \<longleftrightarrow> snd (Atoi (lookup_string (Vars r) ''id'')) \<noteq> None"
  by (cases "Atoi (lookup_string (Vars r) ''id'')")
     (auto simp: App_deleteProduct_def respond_defs status_defs
           split: prod.splits option.splits)

subsection \<open>The id of a product route\<close>

text \<open>
  Claim C5, as amended. For a request whose path matches the template
  \<^verbatim>\<open>/product/{id:[0-9]+}\<close>, \<^verbatim>\<open>strconv.Atoi\<close> on the id segment succeeds exactly when
  the number the digits denote is at most \<open>2\<^sup>6\<^sup>3 - 1\<close>, and then returns that number;
  for a larger number it returns a range error, and the handler the request is
  routed to answers 400 with its invalid-id message. So the parse-failure branch of
  the three handlers is taken exactly for the ids above \<open>2\<^sup>6\<^sup>3 - 1\<close>.
\<close>

theorem numeric_route_Atoi:
  assumes "match_template (Numeric ''/product/'' ''id'') (Path r) = Some vs"
  shows "\<exists>seg. Path r = ''/product/'' @ seg \<and> lookup_string vs ''id'' = seg
           \<and> Atoi seg =
               (if int (decimal seg) \<le> maxInt then (int (decimal seg), None)
                else (maxInt, Some ErrRange))
           \<and> (fst (App_getProduct d (r\<lparr>Vars := vs\<rparr>)) =
                 respondWithError StatusBadRequest ''Invalid product ID''
               \<longleftrightarrow> maxInt < int (decimal seg))
           \<and> (fst (App_updateProduct d (r\<lparr>Vars := vs\<rparr>)) =
                 respondWithError StatusBadRequest ''Invalid product ID''
               \<longleftrightarrow> maxInt < int (decimal seg))
           \<and> (fst (App_deleteProduct d (r\<lparr>Vars := vs\<rparr>)) =
                 respondWithError StatusBadRequest ''Invalid Product ID''
               \<longleftrightarrow> maxInt < int (decimal seg))"
proof -
  obtain seg where p: "Path r = ''/product/'' @ seg" and vs: "vs = [(''id'', seg)]"
    and ne: "seg \<noteq> []" and dig: "list_all is_digit seg"
    using match_template_Numeric [OF assms] by blast
  have l: "lookup_string vs ''id'' = seg"
    using vs by (simp add: lookup_string_single)
  note a = Atoi_digits [OF ne dig]
  have e: "snd (Atoi seg) \<noteq> None \<longleftrightarrow> maxInt < int (decimal seg)"
    using a by auto
  have v: "lookup_string (Vars (r\<lparr>Vars := vs\<rparr>)) ''id'' = seg"
    using l by simp
  show ?thesis
    using p l a e
    by (simp only: App_getProduct_invalid_iff App_updateProduct_invalid_iff
          App_deleteProduct_invalid_iff v) blast
qed

theorem numeric_route_Atoi_witness:
  "fst (App_getProduct \<lparr>rows = [], seq = 0, fault = None\<rparr>
          \<lparr>Method = ''GET'', Path = ''/product/11'', Vars = [(''id'', ''11'')], Form = [],
           Body = None\<rparr>) \<noteq>
     respondWithError StatusBadRequest ''Invalid product ID''
   \<and> fst (App_getProduct \<lparr>rows = [], seq = 0, fault = None\<rparr>
          \<lparr>Method = ''GET'', Path = ''/product/9223372036854775808'',
           Vars = [(''id'', ''9223372036854775808'')], Form = [], Body = None\<rparr>) =
     respondWithError StatusBadRequest ''Invalid product ID''"
proof -
  let ?d = "\<lparr>rows = [], seq = 0, fault = None\<rparr>"
  let ?r = "\<lparr>Method = ''GET'', Path = ''/product/11'', Vars = [], Form = [], Body = None\<rparr>"
  let ?r2 = "\<lparr>Method = ''GET'', Path = ''/product/9223372036854775808'', Vars = [], Form = [],
              Body = None\<rparr>"
  have m: "match_template (Numeric ''/product/'' ''id'') (Path ?r) = Some [(''id'', ''11'')]"
    by (simp add: match_template_def is_digit_def)
  have m2: "match_template (Numeric ''/product/'' ''id'') (Path ?r2) =
              Some [(''id'', ''9223372036854775808'')]"
    by (simp add: match_template_def is_digit_def)
  have v: "decimal ''11'' = 11" "decimal ''9223372036854775808'' = 9223372036854775808"
    by (simp_all add: decimal_def digit_val_def)
  show ?thesis
    using numeric_route_Atoi [OF m, of ?d] numeric_route_Atoi [OF m2, of ?d] v
    by (simp add: maxInt_def)
qed

text \<open>
  Claim C5, as stated, fails: the path \<^verbatim>\<open>/product/99999999999999999999\<close> matches
  the route, \<^verbatim>\<open>Atoi\<close> fails on its id segment with a range error, and the router
  hands the request to the handler, which answers 400 \<^verbatim>\<open>Invalid product ID\<close>.
\<close>

theorem numeric_route_counterexample:
  "match_template (Numeric ''/product/'' ''id'') ''/product/99999999999999999999'' =
     Some [(''id'', ''99999999999999999999'')]
   \<and> Atoi ''99999999999999999999'' = (2 ^ 63 - 1, Some ErrRange)
   \<and> ServeHTTP \<lparr>rows = [], seq = 0, fault = None\<rparr>
        \<lparr>Method = ''GET'', Path = ''/product/99999999999999999999'', Vars = [], Form = [],
         Body = None\<rparr> =
      (Handled \<lparr>code = 400, content_type = ''application/json'',
                body = JObject [(''error'', JString ''Invalid product ID'')]\<rparr>,
       \<lparr>rows = [], seq = 0, fault = None\<rparr>)"
proof -
  have a: "Atoi ''99999999999999999999'' = (2 ^ 63 - 1, Some ErrRange)"
    by (simp add: Atoi_def ParseInt_def ParseUint_def is_digit_def digit_val_def maxUint64_def)
  have m: "match_template (Numeric ''/product/'' ''id'') ''/product/99999999999999999999'' =
     Some [(''id'', ''99999999999999999999'')]"
    by (simp add: match_template_def is_digit_def)
  have l: "match_template (Literal ''/products'') ''/product/99999999999999999999'' = None"
    "match_template (Literal ''/product'') ''/product/99999999999999999999'' = None"
    by (simp_all add: match_template_def)
  show ?thesis
    using a m l
    by (simp add: ServeHTTP_def initializeRoutes_def App_getProduct_def lookup_string_def
          respond_defs status_defs)
qed

end
